theory Spec2Isabelle
  imports Complex_Main "HOL-Library.Word"
begin

unbundle bit_operations_syntax

section \<open>Arduino and C primitives used by the sketch\<close>

text \<open>
  The sketch \<^verbatim>\<open>TEA5767_Radio.ino\<close> keeps two globals, \<^verbatim>\<open>float frequency\<close> and
  \<^verbatim>\<open>byte status\<close>, and talks to two library objects, the display \<^verbatim>\<open>lcd\<close> and the
  tuner \<^verbatim>\<open>Radio\<close>. The status byte is an 8-bit word. The frequency is modelled as an
  exact rational number of MHz: the rounding of the C \<^verbatim>\<open>float\<close> is not part of the model,
  which follows the fixed-point reading (0.1 MHz granularity) of the specification.
\<close>

type_synonym byte = "8 word"

text \<open>The macros \<^verbatim>\<open>bitRead\<close>, \<^verbatim>\<open>bitSet\<close>, \<^verbatim>\<open>bitClear\<close> and \<^verbatim>\<open>bitWrite\<close> of Arduino.h.\<close>

definition bitRead :: "byte \<Rightarrow> nat \<Rightarrow> bool" where
  "bitRead v b = (drop_bit b v AND 1 \<noteq> 0)"

definition bitSet :: "byte \<Rightarrow> nat \<Rightarrow> byte" where
  "bitSet v b = v OR push_bit b 1"

definition bitClear :: "byte \<Rightarrow> nat \<Rightarrow> byte" where
  "bitClear v b = v AND NOT (push_bit b 1)"

definition bitWrite :: "byte \<Rightarrow> nat \<Rightarrow> bool \<Rightarrow> byte" where
  "bitWrite v b x = (if x then bitSet v b else bitClear v b)"

text \<open>C converts a floating value to \<^verbatim>\<open>int\<close> by discarding the fraction.\<close>

definition trunc_int :: "rat \<Rightarrow> int" where
  "trunc_int x = (if 0 \<le> x then \<lfloor>x\<rfloor> else \<lceil>x\<rceil>)"

text \<open>C integer division and remainder truncate towards zero.\<close>

definition c_div :: "int \<Rightarrow> int \<Rightarrow> int" where
  "c_div a b = sgn a * sgn b * (\<bar>a\<bar> div \<bar>b\<bar>)"

definition c_mod :: "int \<Rightarrow> int \<Rightarrow> int" where
  "c_mod a b = a - b * c_div a b"

text \<open>An \<^verbatim>\<open>int\<close> of the ATmega32U4 has 16 bits; a product is reduced to that range.\<close>

definition int16 :: "int \<Rightarrow> int" where
  "int16 x = (x + 32768) mod 65536 - 32768"

subsection \<open>Constants of the sketch\<close>

definition SCALE_CLEAR :: byte where "SCALE_CLEAR = 5"
definition STEREO_CHAR_S :: byte where "STEREO_CHAR_S = 6"
definition STEREO_CHAR_T :: byte where "STEREO_CHAR_T = 7"

definition ST_AUTO :: nat where "ST_AUTO = 0"
definition ST_STEREO :: nat where "ST_STEREO = 1"
definition ST_GO_UP :: nat where "ST_GO_UP = 2"
definition ST_GO_DOWN :: nat where "ST_GO_DOWN = 3"
definition ST_SEARCH :: nat where "ST_SEARCH = 4"

section \<open>The display and the tuner as recorded calls\<close>

text \<open>
  Every call the sketch makes on \<^verbatim>\<open>lcd\<close> and on \<^verbatim>\<open>Radio\<close> is appended to a log, in
  program order. \<^verbatim>\<open>lcd.print(n)\<close> for an integer, \<^verbatim>\<open>lcd.print(x, d)\<close> for a
  floating value and \<^verbatim>\<open>lcd.print(s)\<close> for a string are kept apart.
\<close>

datatype lcd_cmd =
    Clear
  | SetCursor int int
  | Write byte
  | PrintInt int
  | PrintFloat rat nat
  | PrintStr string

text \<open>
  Modelled from the spec: the macros \<^verbatim>\<open>TEA5767_SEARCH_DIR_UP\<close> and
  \<^verbatim>\<open>TEA5767_SEARCH_DIR_DOWN\<close> come from the header of the tuner library, which is not
  part of the sketch; the specification gives the search direction the values Up and
  Down, and None where it has no meaning.
\<close>

datatype direction = Up | Down

datatype radio_cmd =
    Init
  | SetFrequency rat
  | ReadStatus
  | ProcessSearch "direction option"
  | SearchUp
  | SearchDown

text \<open>
  What the tuner answers in one pass of \<^verbatim>\<open>loop()\<close>: the decoded status buffer when
  \<^verbatim>\<open>read_status\<close> returns 1 (the values of \<^verbatim>\<open>frequency_available\<close>, \<^verbatim>\<open>stereo\<close> and
  \<^verbatim>\<open>signal_level\<close>), and the value \<^verbatim>\<open>process_search\<close> returns when it is called.
\<close>

record reading =
  hz :: rat
  stereo :: int
  signal_level :: int

record env =
  read_status :: "reading option"
  process_search :: int

section \<open>The state of the sketch\<close>

text \<open>
  \<^verbatim>\<open>searchDirection\<close> is an automatic variable of \<^verbatim>\<open>loop()\<close>, declared without an
  initialiser: it holds no value (None) when a pass begins, and the value assigned in
  the pass afterwards.
\<close>

record state =
  frequency :: rat
  status :: byte
  searchDirection :: "direction option"
  lcd :: "lcd_cmd list"
  radio :: "radio_cmd list"

definition lcd_setCursor :: "int \<Rightarrow> int \<Rightarrow> state \<Rightarrow> state" where
  "lcd_setCursor c r s = s\<lparr>lcd := lcd s @ [SetCursor c r]\<rparr>"

definition lcd_write :: "byte \<Rightarrow> state \<Rightarrow> state" where
  "lcd_write b s = s\<lparr>lcd := lcd s @ [Write b]\<rparr>"

definition lcd_print_int :: "int \<Rightarrow> state \<Rightarrow> state" where
  "lcd_print_int n s = s\<lparr>lcd := lcd s @ [PrintInt n]\<rparr>"

definition lcd_print_float :: "rat \<Rightarrow> nat \<Rightarrow> state \<Rightarrow> state" where
  "lcd_print_float x d s = s\<lparr>lcd := lcd s @ [PrintFloat x d]\<rparr>"

definition lcd_print_str :: "string \<Rightarrow> state \<Rightarrow> state" where
  "lcd_print_str t s = s\<lparr>lcd := lcd s @ [PrintStr t]\<rparr>"

definition radio_call :: "radio_cmd \<Rightarrow> state \<Rightarrow> state" where
  "radio_call c s = s\<lparr>radio := radio s @ [c]\<rparr>"

section \<open>updateScale\<close>

text \<open>
  The three locals of \<^verbatim>\<open>updateScale()\<close>, as functions of the global frequency. The
  conversion to \<^verbatim>\<open>int\<close> is defined in C where the value fits an \<^verbatim>\<open>int\<close>, as it does
  for every frequency the tuner can report; the model keeps the mathematical value.
\<close>

definition lcdBase :: "rat \<Rightarrow> int" where
  "lcdBase f = (let b = trunc_int ((f - 88) * 4) in if b > 79 then 79 else b)"

definition lcdMajor :: "rat \<Rightarrow> int" where
  "lcdMajor f = c_div (lcdBase f) 5"

definition lcdMinor :: "rat \<Rightarrow> int" where
  "lcdMinor f = c_mod (lcdBase f) 5"

definition updateScale :: "state \<Rightarrow> state" where
  "updateScale s =
     (let major = lcdMajor (frequency s);
          minor = lcdMinor (frequency s);
          s1 = (if major > 0
                then lcd_write SCALE_CLEAR (lcd_setCursor (major - 1) 0 s)
                else lcd_setCursor major 0 s);
          s2 = lcd_write (word_of_int minor) s1
      in if major < 15 then lcd_write SCALE_CLEAR s2 else s2)"

section \<open>The interrupt handlers\<close>

text \<open>
  The argument of \<open>isrEncoder\<close> is whether \<^verbatim>\<open>digitalRead(ENCODER_B)\<close> is HIGH. The
  50 ms pause of both handlers takes time only.
\<close>

definition isrEncoder :: "bool \<Rightarrow> state \<Rightarrow> state" where
  "isrEncoder b_high s =
     (if b_high then s\<lparr>status := bitWrite (status s) ST_GO_UP True\<rparr>
      else s\<lparr>status := bitWrite (status s) ST_GO_DOWN True\<rparr>)"

definition isrSwitch :: "state \<Rightarrow> state" where
  "isrSwitch s =
     (if bitRead (status s) ST_AUTO then s\<lparr>status := bitWrite (status s) ST_AUTO False\<rparr>
      else s\<lparr>status := bitWrite (status s) ST_AUTO True\<rparr>)"

section \<open>setup and loop\<close>

text \<open>
  The state \<^verbatim>\<open>setup()\<close> leaves: the globals as initialised, the display cleared and
  the dial background drawn, the tuner initialised and tuned to 88 MHz. The glyph
  bitmaps, the pin modes and the attachment of the handlers are not modelled.
\<close>

definition arduino_setup :: state where
  "arduino_setup =
     \<lparr>frequency = 88, status = 0, searchDirection = None,
      lcd = Clear # replicate 16 (Write SCALE_CLEAR),
      radio = [Init, SetFrequency 88]\<rparr>"

text \<open>Lines 230 to 263: the Auto/Manual letter, then the status of the tuner.\<close>

definition refresh :: "reading option \<Rightarrow> state \<Rightarrow> state" where
  "refresh rd s =
     (let s1 = lcd_write (if bitRead (status s) ST_AUTO then 65 else 77)
                 (lcd_setCursor 12 1 s);
          s2 = radio_call ReadStatus s1
      in case rd of
           None \<Rightarrow> s2
         | Some r \<Rightarrow>
             (let s3 = s2\<lparr>frequency := of_int \<lfloor>hz r / 100000 + 1 / 2\<rfloor> / 10\<rparr>;
                  signalLevel = c_div (int16 (signal_level r * 100)) 15;
                  s4 = updateScale s3;
                  s5 = lcd_write 183 (lcd_setCursor 0 1 s4);
                  s6 = (if signalLevel < 100 then lcd_write 32 s5 else s5);
                  s7 = lcd_write 37 (lcd_print_int signalLevel s6);
                  s8 = lcd_setCursor 6 1 s7;
                  s9 = (if frequency s8 < 100 then lcd_write 32 s8 else s8);
                  s10 = lcd_setCursor 14 1 (lcd_print_float (frequency s9) 1 s9)
              in if stereo r \<noteq> 0
                 then lcd_write STEREO_CHAR_T (lcd_write STEREO_CHAR_S s10)
                 else lcd_print_str ''  '' s10))"

text \<open>Lines 265 to 269: is a search in progress, and has it ended?\<close>

definition poll_search :: "int \<Rightarrow> state \<Rightarrow> state" where
  "poll_search answer s =
     (if bitRead (status s) ST_SEARCH
      then (let s1 = radio_call (ProcessSearch (searchDirection s)) s
            in if answer = 1 then s1\<lparr>status := bitWrite (status s1) ST_SEARCH False\<rparr>
               else s1)
      else s)"

text \<open>Lines 272 to 287: the encoder was turned clockwise.\<close>

definition go_up :: "state \<Rightarrow> state" where
  "go_up s =
     (if bitRead (status s) ST_GO_UP
      then (let s1 =
                  (if bitRead (status s) ST_AUTO \<and> \<not> bitRead (status s) ST_SEARCH
                   then radio_call SearchUp
                          (s\<lparr>status := bitWrite (status s) ST_SEARCH True,
                             searchDirection := Some Up\<rparr>)
                   else if frequency s < 108
                        then (let s2 = s\<lparr>frequency := frequency s + 1 / 10\<rparr>
                              in radio_call (SetFrequency (frequency s2)) s2)
                        else s)
            in s1\<lparr>status := bitWrite (status s1) ST_GO_UP False\<rparr>)
      else s)"

text \<open>Lines 290 to 305: the encoder was turned counterclockwise.\<close>

definition go_down :: "state \<Rightarrow> state" where
  "go_down s =
     (if bitRead (status s) ST_GO_DOWN
      then (let s1 =
                  (if bitRead (status s) ST_AUTO \<and> \<not> bitRead (status s) ST_SEARCH
                   then radio_call SearchDown
                          (s\<lparr>status := bitWrite (status s) ST_SEARCH True,
                             searchDirection := Some Down\<rparr>)
                   else if frequency s > 88
                        then (let s2 = s\<lparr>frequency := frequency s - 1 / 10\<rparr>
                              in radio_call (SetFrequency (frequency s2)) s2)
                        else s)
            in s1\<lparr>status := bitWrite (status s1) ST_GO_DOWN False\<rparr>)
      else s)"

definition loop :: "env \<Rightarrow> state \<Rightarrow> state" where
  "loop e s =
     go_down (go_up (poll_search (process_search e)
       (refresh (read_status e) (s\<lparr>searchDirection := None\<rparr>))))"

text \<open>
  A run of the sketch: edges on the encoder and on the switch, and passes of
  \<^verbatim>\<open>loop()\<close>, one after the other. A handler that interrupts a pass half-way is not
  modelled.
\<close>

datatype event = EncoderEdge bool | SwitchEdge | Pass env

fun step :: "event \<Rightarrow> state \<Rightarrow> state" where
  "step (EncoderEdge b) s = isrEncoder b s"
| "step SwitchEdge s = isrSwitch s"
| "step (Pass e) s = loop e s"

definition run :: "event list \<Rightarrow> state \<Rightarrow> state" where
  "run evs s = fold step evs s"

section \<open>What the display shows\<close>

text \<open>
  The text that \<^verbatim>\<open>print\<close> produces for an integer and for a floating value with a
  number of decimals, after the Print class of the Arduino core: the digits of the
  integer part, and for a floating value the value rounded at the last decimal, a point,
  and the decimals one by one.
\<close>

fun print_nat :: "nat \<Rightarrow> string" where
  "print_nat n =
     (if n < 10 then [char_of (48 + n)]
      else print_nat (n div 10) @ [char_of (48 + n mod 10)])"

definition print_int :: "int \<Rightarrow> string" where
  "print_int n = (if n < 0 then CHR ''-'' # print_nat (nat (- n)) else print_nat (nat n))"

fun print_fraction :: "nat \<Rightarrow> rat \<Rightarrow> string" where
  "print_fraction 0 remainder = []"
| "print_fraction (Suc digits) remainder =
     (let toPrint = \<lfloor>remainder * 10\<rfloor>
      in print_nat (nat toPrint) @ print_fraction digits (remainder * 10 - of_int toPrint))"

definition print_float :: "rat \<Rightarrow> nat \<Rightarrow> string" where
  "print_float x digits =
     (let number = \<bar>x\<bar> + (1 / 2) / 10 ^ digits;
          int_part = \<lfloor>number\<rfloor>
      in (if x < 0 then ''-'' else [])
         @ print_nat (nat int_part)
         @ (if digits > 0 then ''.'' else [])
         @ print_fraction digits (number - of_int int_part))"

text \<open>
  The character cells of the display, addressed by (column, row), and its cursor. A
  write stores a byte under the cursor and moves the cursor one column to the right;
  the visible part is columns 0 to 15 of rows 0 and 1.
\<close>

record display =
  cursor :: "int \<times> int"
  cells :: "int \<times> int \<Rightarrow> byte"

definition put :: "byte \<Rightarrow> display \<Rightarrow> display" where
  "put b d =
     \<lparr>cursor = (fst (cursor d) + 1, snd (cursor d)), cells = (cells d)(cursor d := b)\<rparr>"

definition put_text :: "string \<Rightarrow> display \<Rightarrow> display" where
  "put_text t d = fold (\<lambda>c. put (of_char c)) t d"

fun lcd_exec :: "lcd_cmd \<Rightarrow> display \<Rightarrow> display" where
  "lcd_exec Clear d = \<lparr>cursor = (0, 0), cells = (\<lambda>_. 32)\<rparr>"
| "lcd_exec (SetCursor c r) d = d\<lparr>cursor := (c, r)\<rparr>"
| "lcd_exec (Write b) d = put b d"
| "lcd_exec (PrintInt n) d = put_text (print_int n) d"
| "lcd_exec (PrintFloat x k) d = put_text (print_float x k) d"
| "lcd_exec (PrintStr t) d = put_text t d"

definition shown :: "lcd_cmd list \<Rightarrow> display" where
  "shown cmds = fold lcd_exec cmds \<lparr>cursor = (0, 0), cells = (\<lambda>_. 32)\<rparr>"

definition row_of :: "display \<Rightarrow> int \<Rightarrow> byte list" where
  "row_of d r = map (\<lambda>c. cells d (c, r)) [0..15]"

text \<open>The needle glyphs are the custom characters 0 to 4.\<close>

definition is_needle :: "byte \<Rightarrow> bool" where
  "is_needle b = (b < 5)"

section \<open>Notions used to state the properties\<close>

text \<open>The calls \<^verbatim>\<open>updateScale()\<close> makes on the display at a frequency.\<close>

definition scale_cmds :: "rat \<Rightarrow> lcd_cmd list" where
  "scale_cmds f =
     (if lcdMajor f > 0 then [SetCursor (lcdMajor f - 1) 0, Write SCALE_CLEAR]
      else [SetCursor (lcdMajor f) 0])
     @ [Write (word_of_int (lcdMinor f))]
     @ (if lcdMajor f < 15 then [Write SCALE_CLEAR] else [])"

text \<open>The position on the dial as the specification words it.\<close>

definition spec_position :: "rat \<Rightarrow> int" where
  "spec_position f = trunc_int (max 0 (min 79 ((f - 88) * 4)))"

text \<open>The band, and the frequencies that are a whole number of tenths of a MHz.\<close>

definition in_band :: "rat \<Rightarrow> bool" where
  "in_band f = (88 \<le> f \<and> f \<le> 108)"


text \<open>The frequency a snapshot is turned into at line 236.\<close>

definition reported :: "reading \<Rightarrow> rat" where
  "reported r = of_int \<lfloor>hz r / 100000 + 1 / 2\<rfloor> / 10"

text \<open>The parts of the logs the properties count.\<close>

fun retunes :: "radio_cmd list \<Rightarrow> rat list" where
  "retunes [] = []"
| "retunes (SetFrequency f # cs) = f # retunes cs"
| "retunes (c # cs) = retunes cs"

fun needle_writes :: "lcd_cmd list \<Rightarrow> nat" where
  "needle_writes [] = 0"
| "needle_writes (Write b # cs) = (if is_needle b then Suc (needle_writes cs) else needle_writes cs)"
| "needle_writes (c # cs) = needle_writes cs"

fun printed_ints :: "lcd_cmd list \<Rightarrow> int list" where
  "printed_ints [] = []"
| "printed_ints (PrintInt n # cs) = n # printed_ints cs"
| "printed_ints (c # cs) = printed_ints cs"

text \<open>The letter of the Auto/Manual indicator: \<^verbatim>\<open>'A'\<close> is 65 and \<^verbatim>\<open>'M'\<close> is 77.\<close>

definition letter :: "state \<Rightarrow> byte" where
  "letter s = (if bitRead (status s) ST_AUTO then 65 else 77)"



text \<open>
  Two answers of the tuner: nothing to report, and a snapshot at a frequency in Hz (mono,
  full signal); in both, \<^verbatim>\<open>process_search\<close> would return 0.
\<close>

definition idle :: env where
  "idle = \<lparr>read_status = None, process_search = 0\<rparr>"

definition tuned_to :: "rat \<Rightarrow> env" where
  "tuned_to hertz =
     \<lparr>read_status = Some \<lparr>hz = hertz, stereo = 0, signal_level = 15\<rparr>, process_search = 0\<rparr>"

text \<open>
  A sequence of clockwise turns of the encoder, each followed by one pass of the loop,
  and the tuner answers under which the tuner echoes the frequency it was last given:
  in the pass that begins at \<open>k\<close> tenths of a MHz, a snapshot, if there is one, reports
  \<open>k\<close> tenths.
\<close>

definition turns :: "env list \<Rightarrow> event list" where
  "turns es = concat (map (\<lambda>e. [EncoderEdge True, Pass e]) es)"

fun echoes :: "int \<Rightarrow> env list \<Rightarrow> bool" where
  "echoes k [] = True"
| "echoes k (e # es) =
     ((case read_status e of None \<Rightarrow> True | Some r \<Rightarrow> reported r = of_int k / 10)
      \<and> echoes (k + 1) es)"

fun climb :: "int \<Rightarrow> nat \<Rightarrow> rat list" where
  "climb k 0 = []"
| "climb k (Suc n) = of_int (k + 1) / 10 # climb (k + 1) n"

definition snapshots :: "env list \<Rightarrow> nat" where
  "snapshots es = length (filter (\<lambda>e. read_status e \<noteq> None) es)"

section \<open>Auxiliary facts\<close>

lemma bitRead_bit: "bitRead v b = bit v b"
  by (simp add: bitRead_def bit_iff_odd_drop_bit and_one_eq mod_2_eq_odd)

lemma bit_bitSet: "bit (bitSet v b) n = (bit v n \<or> (n = b \<and> n < 8))"
  by (auto simp add: bitSet_def bit_or_iff bit_push_bit_iff bit_exp_iff possible_bit_word)

lemma bit_bitClear: "bit (bitClear v b) n = (bit v n \<and> n \<noteq> b)"
  by (auto simp add: bitClear_def bit_and_iff bit_not_iff bit_exp_iff possible_bit_word
      dest: bit_imp_le_length)

lemma bitRead_bitWrite:
  "bitRead (bitWrite v b x) n = (if n = b then x \<and> b < 8 else bitRead v n)"
  by (auto simp add: bitWrite_def bitRead_bit bit_bitSet bit_bitClear dest: bit_imp_le_length)

lemma c_div_nonneg: "0 \<le> a \<Longrightarrow> 0 < b \<Longrightarrow> c_div a b = a div b"
  by (cases "a = 0") (simp_all add: c_div_def)

lemma c_mod_nonneg: "0 \<le> a \<Longrightarrow> 0 < b \<Longrightarrow> c_mod a b = a mod b"
  by (simp add: c_mod_def c_div_nonneg minus_mult_div_eq_mod)

lemma int16_id: "- 32768 \<le> x \<Longrightarrow> x < 32768 \<Longrightarrow> int16 x = x"
  by (simp add: int16_def)

lemmas st_bits = ST_AUTO_def ST_STEREO_def ST_GO_UP_def ST_GO_DOWN_def ST_SEARCH_def

lemmas lcd_ops = lcd_setCursor_def lcd_write_def lcd_print_int_def lcd_print_float_def
  lcd_print_str_def radio_call_def

lemma updateScale_lcd: "lcd (updateScale s) = lcd s @ scale_cmds (frequency s)"
  by (simp add: updateScale_def scale_cmds_def Let_def lcd_ops)

lemma updateScale_rest:
  "frequency (updateScale s) = frequency s"
  "status (updateScale s) = status s"
  "searchDirection (updateScale s) = searchDirection s"
  "radio (updateScale s) = radio s"
  by (simp_all add: updateScale_def Let_def lcd_ops)

lemma refresh_frequency:
  "frequency (refresh rd s) = (case rd of None \<Rightarrow> frequency s | Some r \<Rightarrow> reported r)"
  by (simp add: refresh_def Let_def lcd_ops updateScale_rest reported_def split: option.split)

lemma refresh_rest:
  "status (refresh rd s) = status s"
  "searchDirection (refresh rd s) = searchDirection s"
  "radio (refresh rd s) = radio s @ [ReadStatus]"
  by (simp_all add: refresh_def Let_def lcd_ops updateScale_rest split: option.split)

lemma refresh_lcd_None:
  "lcd (refresh None s) = lcd s @ [SetCursor 12 1, Write (letter s)]"
  by (simp add: refresh_def Let_def lcd_ops letter_def)

lemma refresh_lcd_Some:
  "lcd (refresh (Some r) s) =
     lcd s @ [SetCursor 12 1, Write (letter s)] @ scale_cmds (reported r)
     @ [SetCursor 0 1, Write 183]
     @ (if c_div (int16 (signal_level r * 100)) 15 < 100 then [Write 32] else [])
     @ [PrintInt (c_div (int16 (signal_level r * 100)) 15), Write 37, SetCursor 6 1]
     @ (if reported r < 100 then [Write 32] else [])
     @ [PrintFloat (reported r) 1, SetCursor 14 1]
     @ (if stereo r \<noteq> 0 then [Write STEREO_CHAR_S, Write STEREO_CHAR_T] else [PrintStr ''  ''])"
  by (simp add: refresh_def Let_def lcd_ops letter_def updateScale_lcd updateScale_rest reported_def)

lemma poll_search_rest:
  "frequency (poll_search a s) = frequency s"
  "lcd (poll_search a s) = lcd s"
  "searchDirection (poll_search a s) = searchDirection s"
  by (simp_all add: poll_search_def Let_def lcd_ops)

lemma go_up_lcd: "lcd (go_up s) = lcd s"
  by (simp add: go_up_def Let_def lcd_ops)

lemma go_down_lcd: "lcd (go_down s) = lcd s"
  by (simp add: go_down_def Let_def lcd_ops)

lemma loop_lcd: "lcd (loop e s) = lcd (refresh (read_status e) (s\<lparr>searchDirection := None\<rparr>))"
  by (simp add: loop_def go_up_lcd go_down_lcd poll_search_rest)

lemma letter_sd [simp]: "letter (s\<lparr>searchDirection := d\<rparr>) = letter s"
  by (simp add: letter_def)

lemma trunc_int_nonneg: "0 \<le> x \<Longrightarrow> trunc_int x = \<lfloor>x\<rfloor>"
  by (simp add: trunc_int_def)

lemma lcdBase_in_band:
  assumes "88 \<le> f" "f \<le> 108"
  shows "lcdBase f = min 79 \<lfloor>(f - 88) * 4\<rfloor>" "0 \<le> lcdBase f" "lcdBase f \<le> 79"
proof -
  let ?x = "(f - 88) * 4"
  from assms have nn: "0 \<le> ?x" by simp
  then have fl: "0 \<le> \<lfloor>?x\<rfloor>" by simp
  have eq: "lcdBase f = (if \<lfloor>?x\<rfloor> > 79 then 79 else \<lfloor>?x\<rfloor>)"
    using nn by (simp only: lcdBase_def Let_def trunc_int_nonneg)
  have aux: "(if a > 79 then 79 else a) = min 79 a" for a :: int
    by (simp add: min_def)
  show "lcdBase f = min 79 \<lfloor>?x\<rfloor>" unfolding eq by (rule aux)
  then show "0 \<le> lcdBase f" using fl by (simp only: min_def split: if_split) simp
  show "lcdBase f \<le> 79" unfolding eq aux by (rule min.cobounded1)
qed

lemma spec_position_in_band:
  assumes "88 \<le> f" "f \<le> 108"
  shows "spec_position f = min 79 \<lfloor>(f - 88) * 4\<rfloor>"
proof -
  let ?x = "(f - 88) * 4"
  from assms have nn: "0 \<le> ?x" by simp
  show ?thesis
  proof (cases "?x \<le> 79")
    case True
    then have "\<lfloor>?x\<rfloor> \<le> 79" by linarith
    with True nn show ?thesis by (simp add: spec_position_def trunc_int_nonneg min_def max_def)
  next
    case False
    then have "79 \<le> \<lfloor>?x\<rfloor>" by linarith
    with False nn show ?thesis by (simp add: spec_position_def trunc_int_nonneg min_def max_def)
  qed
qed

section \<open>The scale mapping\<close>

text \<open>
  Claim C5. For every frequency \<open>f\<close> from 88.0 to 108.0 MHz, the position computed by
  \<^verbatim>\<open>updateScale()\<close> is the specification's \<open>clamp((f - 88) * 4, 0, 79)\<close> cut to an
  integer, the major index is that position divided by 5 and lies in 0..15, the minor
  index is the remainder and lies in 0..4; 88.0 maps to (0, 0) and 108.0 to (15, 4).
\<close>

theorem scale_mapping:
  assumes "88 \<le> f" and "f \<le> 108"
  shows "lcdBase f = spec_position f
       \<and> lcdMajor f = spec_position f div 5 \<and> 0 \<le> lcdMajor f \<and> lcdMajor f \<le> 15
       \<and> lcdMinor f = spec_position f mod 5 \<and> 0 \<le> lcdMinor f \<and> lcdMinor f \<le> 4
       \<and> (lcdMajor 88, lcdMinor 88) = (0, 0)
       \<and> (lcdMajor 108, lcdMinor 108) = (15, 4)"
proof -
  have base: "lcdBase f = spec_position f"
    using assms by (simp add: lcdBase_in_band spec_position_in_band)
  have b: "0 \<le> lcdBase f" "lcdBase f \<le> 79"
    using assms by (rule lcdBase_in_band)+
  have major: "lcdMajor f = lcdBase f div 5"
    using b by (simp add: lcdMajor_def c_div_nonneg)
  have minor: "lcdMinor f = lcdBase f mod 5"
    using b by (simp add: lcdMinor_def c_mod_nonneg)
  have "0 \<le> lcdBase f div 5" "lcdBase f div 5 \<le> 15" using b by simp_all
  moreover have "0 \<le> lcdBase f mod 5" "lcdBase f mod 5 \<le> 4" by simp_all
  moreover have "(lcdMajor 88, lcdMinor 88) = (0, 0)"
    by (simp add: lcdMajor_def lcdMinor_def lcdBase_def trunc_int_def c_div_def c_mod_def)
  moreover have "(lcdMajor 108, lcdMinor 108) = (15, 4)"
    by (simp add: lcdMajor_def lcdMinor_def lcdBase_def trunc_int_def c_div_def c_mod_def)
  ultimately show ?thesis using base major minor by simp
qed

theorem scale_mapping_witness:
  "lcdBase 100 = spec_position 100 \<and> lcdMajor 100 = 9 \<and> lcdMinor 100 = 3"
  using scale_mapping [of 100]
  by (simp add: spec_position_def trunc_int_def)

section \<open>A pass without a status snapshot\<close>

text \<open>
  Claim C8. In a pass of the loop in which the tuner reports no status snapshot, the
  only calls made on the display are the placement of the cursor at column 12 of row 1
  and the Auto/Manual letter: no dial, signal, frequency or stereo field is written, and
  the refresh step leaves the stored frequency as it was. The letter is written at the
  start of every pass, with or without a snapshot.
\<close>

theorem no_reading_no_refresh:
  assumes "read_status e = None"
  shows "lcd (loop e s) = lcd s @ [SetCursor 12 1, Write (if bitRead (status s) ST_AUTO then 65 else 77)]
       \<and> frequency (refresh (read_status e) s) = frequency s
       \<and> take 2 (drop (length (lcd s)) (lcd (loop e' s)))
           = [SetCursor 12 1, Write (if bitRead (status s) ST_AUTO then 65 else 77)]"
proof -
  have "lcd (loop e s) = lcd s @ [SetCursor 12 1, Write (letter s)]"
    using assms by (simp add: loop_lcd refresh_lcd_None)
  moreover have "frequency (refresh (read_status e) s) = frequency s"
    using assms by (simp add: refresh_frequency)
  moreover have "take 2 (drop (length (lcd s)) (lcd (loop e' s))) = [SetCursor 12 1, Write (letter s)]"
    by (cases "read_status e'") (simp_all add: loop_lcd refresh_lcd_None refresh_lcd_Some)
  ultimately show ?thesis by (simp add: letter_def)
qed

theorem no_reading_no_refresh_witness:
  "lcd (loop \<lparr>read_status = None, process_search = 0\<rparr> arduino_setup)
     = lcd arduino_setup @ [SetCursor 12 1, Write 77]
   \<and> frequency (refresh None arduino_setup) = 88"
  using no_reading_no_refresh [of "\<lparr>read_status = None, process_search = 0\<rparr>" arduino_setup]
  by (simp add: arduino_setup_def bitRead_def ST_AUTO_def)

section \<open>The signal percentage\<close>

lemma floor_level: "\<lfloor>(of_int l * 100 / 15 :: rat)\<rfloor> = (l * 100) div 15"
proof -
  have "(of_int l * 100 / 15 :: rat) = of_int (l * 100) / of_int 15" by simp
  then show ?thesis by (simp only: floor_divide_of_int_eq)
qed

lemma printed_ints_append: "printed_ints (xs @ ys) = printed_ints xs @ printed_ints ys"
  by (induction xs rule: printed_ints.induct) simp_all

lemma printed_ints_scale: "printed_ints (scale_cmds f) = []"
  by (simp add: scale_cmds_def)

text \<open>
  Claim C9. For a signal level from 0 to 15, the number printed after the antenna glyph
  is \<open>floor(level * 100 / 15)\<close>: 100 at level 15 and 0 at level 0.
\<close>

theorem signal_percentage:
  assumes "read_status e = Some r" and "0 \<le> signal_level r" and "signal_level r \<le> 15"
  shows "printed_ints (lcd (loop e s))
           = printed_ints (lcd s) @ [\<lfloor>(of_int (signal_level r) * 100 / 15 :: rat)\<rfloor>]
       \<and> (signal_level r = 15 \<longrightarrow> printed_ints (lcd (loop e s)) = printed_ints (lcd s) @ [100])
       \<and> (signal_level r = 0 \<longrightarrow> printed_ints (lcd (loop e s)) = printed_ints (lcd s) @ [0])"
proof -
  have "int16 (signal_level r * 100) = signal_level r * 100"
    using assms by (intro int16_id) simp_all
  then have lvl: "c_div (int16 (signal_level r * 100)) 15 = (signal_level r * 100) div 15"
    using assms by (simp add: c_div_nonneg)
  have main: "printed_ints (lcd (loop e s)) = printed_ints (lcd s) @ [(signal_level r * 100) div 15]"
    using assms(1) by (simp add: loop_lcd refresh_lcd_Some printed_ints_append printed_ints_scale lvl)
  show ?thesis unfolding floor_level using main by simp
qed

theorem signal_percentage_witness:
  "printed_ints (lcd (loop \<lparr>read_status = Some \<lparr>hz = 88000000, stereo = 0, signal_level = 7\<rparr>,
       process_search = 0\<rparr> arduino_setup)) = printed_ints (lcd arduino_setup) @ [46]"
proof -
  have "\<lfloor>(of_int 7 * 100 / 15 :: rat)\<rfloor> = 46" by (simp add: floor_eq_iff)
  then show ?thesis
  using signal_percentage [of "\<lparr>read_status = Some \<lparr>hz = 88000000, stereo = 0, signal_level = 7\<rparr>,
       process_search = 0\<rparr>" "\<lparr>hz = 88000000, stereo = 0, signal_level = 7\<rparr>" arduino_setup]
  by simp
qed

section \<open>Adoption of a status snapshot\<close>

lemma reported_in_band:
  "in_band (reported r) \<longleftrightarrow> 87950000 \<le> hz r \<and> hz r < 108050000"
proof -
  let ?n = "\<lfloor>hz r / 100000 + 1 / 2\<rfloor>"
  have "in_band (reported r) \<longleftrightarrow> 880 \<le> ?n \<and> ?n < 1081"
    by (auto simp add: in_band_def reported_def)
  also have "\<dots> \<longleftrightarrow> of_int 880 \<le> hz r / 100000 + 1 / 2 \<and> hz r / 100000 + 1 / 2 < of_int 1081"
    by (simp only: le_floor_iff floor_less_iff)
  also have "\<dots> \<longleftrightarrow> 87950000 \<le> hz r \<and> hz r < 108050000"
    by auto
  finally show ?thesis .
qed


text \<open>
  Claim C10, as amended. Whenever a status snapshot is available, the refresh step
  replaces the stored frequency by \<open>floor(hz / 100000 + 0.5) / 10\<close>, with no clamping:
  the stored frequency lies in the band from 88.0 to 108.0 MHz exactly when the reported
  frequency is at least 87.95 MHz and below 108.05 MHz. A report below 87.95 MHz or from
  108.05 MHz on takes the stored frequency out of the band.
\<close>

theorem snapshot_adoption:
  "frequency (refresh (Some r) s) = of_int \<lfloor>hz r / 100000 + 1 / 2\<rfloor> / 10
   \<and> (in_band (frequency (refresh (Some r) s)) \<longleftrightarrow> 87950000 \<le> hz r \<and> hz r < 108050000)"
  by (simp add: refresh_frequency reported_in_band) (simp add: reported_def)

text \<open>
  A report of 87.96188 MHz lies outside the band, and the stored frequency becomes 88.0,
  inside it.
\<close>

theorem snapshot_adoption_counterexample:
  "hz \<lparr>hz = 87961880, stereo = 0, signal_level = 0\<rparr> < 88000000
   \<and> frequency (refresh (Some \<lparr>hz = 87961880, stereo = 0, signal_level = 0\<rparr>) arduino_setup) = 88
   \<and> in_band (frequency (refresh (Some \<lparr>hz = 87961880, stereo = 0, signal_level = 0\<rparr>) arduino_setup))"
  by (simp add: refresh_frequency reported_def in_band_def floor_eq_iff)

theorem snapshot_adoption_witness:
  "frequency (refresh (Some \<lparr>hz = 87500000, stereo = 0, signal_level = 0\<rparr>) arduino_setup) = 175 / 2
   \<and> \<not> in_band (frequency (refresh (Some \<lparr>hz = 87500000, stereo = 0, signal_level = 0\<rparr>) arduino_setup))"
proof -
  have fl: "\<lfloor>1751 / 2 :: rat\<rfloor> = 875" by (simp add: floor_eq_iff)
  show ?thesis
    using snapshot_adoption [of "\<lparr>hz = 87500000, stereo = 0, signal_level = 0\<rparr>" arduino_setup]
    by (simp add: fl)
qed

section \<open>Manual tuning steps\<close>

text \<open>
  Claim C2, as amended. In the manual branch of the handling of goUp and goDown there is
  a guard and no clamp. A goUp event at a frequency below 108.0 adds 0.1 and issues one
  retune command with the new frequency (from 107.95 the result is 108.05); at 108.0 or
  above it leaves the frequency unchanged and issues no command. A goDown event at a
  frequency above 88.0 subtracts 0.1 and issues one retune command (from 88.05 the result
  is 87.95); at 88.0 or below it leaves the frequency unchanged and issues no command.
  Either way the flag of the event is cleared.
\<close>

theorem manual_step:
  assumes "\<not> (bitRead (status s) ST_AUTO \<and> \<not> bitRead (status s) ST_SEARCH)"
  shows "(bitRead (status s) ST_GO_UP \<and> frequency s < 108 \<longrightarrow>
            frequency (go_up s) = frequency s + 1 / 10
          \<and> radio (go_up s) = radio s @ [SetFrequency (frequency s + 1 / 10)])
       \<and> (bitRead (status s) ST_GO_UP \<and> 108 \<le> frequency s \<longrightarrow>
            frequency (go_up s) = frequency s \<and> radio (go_up s) = radio s)
       \<and> (bitRead (status s) ST_GO_DOWN \<and> 88 < frequency s \<longrightarrow>
            frequency (go_down s) = frequency s - 1 / 10
          \<and> radio (go_down s) = radio s @ [SetFrequency (frequency s - 1 / 10)])
       \<and> (bitRead (status s) ST_GO_DOWN \<and> frequency s \<le> 88 \<longrightarrow>
            frequency (go_down s) = frequency s \<and> radio (go_down s) = radio s)
       \<and> \<not> bitRead (status (go_up s)) ST_GO_UP
       \<and> \<not> bitRead (status (go_down s)) ST_GO_DOWN"
  using assms
  by (auto simp add: go_up_def go_down_def Let_def radio_call_def bitRead_bitWrite st_bits)

text \<open>
  One step up from 107.95 gives 108.05 and not 108.0; one step down from 88.05 gives
  87.95, below 88.0.
\<close>

theorem manual_step_counterexample:
  "frequency (go_up (arduino_setup\<lparr>frequency := 2159 / 20, status := 4\<rparr>)) = 2161 / 20
   \<and> frequency (go_up (arduino_setup\<lparr>frequency := 2159 / 20, status := 4\<rparr>)) \<noteq> 108
   \<and> frequency (go_down (arduino_setup\<lparr>frequency := 1761 / 20, status := 8\<rparr>)) = 1759 / 20
   \<and> frequency (go_down (arduino_setup\<lparr>frequency := 1761 / 20, status := 8\<rparr>)) < 88"
  by (simp add: go_up_def go_down_def Let_def radio_call_def arduino_setup_def bitRead_def bitWrite_def st_bits)

theorem manual_step_witness:
  "frequency (go_up (arduino_setup\<lparr>frequency := 1079 / 10, status := 4\<rparr>)) = 108
   \<and> radio (go_up (arduino_setup\<lparr>frequency := 1079 / 10, status := 4\<rparr>))
       = [Init, SetFrequency 88, SetFrequency 108]
   \<and> frequency (go_up (arduino_setup\<lparr>frequency := 108, status := 4\<rparr>)) = 108
   \<and> radio (go_up (arduino_setup\<lparr>frequency := 108, status := 4\<rparr>)) = [Init, SetFrequency 88]
   \<and> frequency (go_down (arduino_setup\<lparr>frequency := 88, status := 8\<rparr>)) = 88
   \<and> radio (go_down (arduino_setup\<lparr>frequency := 88, status := 8\<rparr>)) = [Init, SetFrequency 88]"
  using manual_step [of "arduino_setup\<lparr>frequency := 1079 / 10, status := 4\<rparr>"]
    manual_step [of "arduino_setup\<lparr>frequency := 108, status := 4\<rparr>"]
    manual_step [of "arduino_setup\<lparr>frequency := 88, status := 8\<rparr>"]
  by (simp add: arduino_setup_def bitRead_def st_bits)

section \<open>The band invariant\<close>




lemma go_up_frequency:
  "frequency (go_up s) =
     (if bitRead (status s) ST_GO_UP
         \<and> \<not> (bitRead (status s) ST_AUTO \<and> \<not> bitRead (status s) ST_SEARCH)
         \<and> frequency s < 108
      then frequency s + 1 / 10 else frequency s)"
  by (simp add: go_up_def Let_def radio_call_def)












section \<open>Who writes which flag\<close>

lemma isrEncoder_bits:
  "bitRead (status (isrEncoder b s)) n
     = (bitRead (status s) n \<or> n = (if b then ST_GO_UP else ST_GO_DOWN))"
  by (auto simp add: isrEncoder_def bitRead_bitWrite st_bits)

lemma isrSwitch_bits:
  "bitRead (status (isrSwitch s)) n
     = (if n = ST_AUTO then \<not> bitRead (status s) ST_AUTO else bitRead (status s) n)"
  by (auto simp add: isrSwitch_def bitRead_bitWrite st_bits)

lemma poll_search_bits:
  "bitRead (status (poll_search a s)) n
     = (if n = ST_SEARCH then bitRead (status s) ST_SEARCH \<and> a \<noteq> 1 else bitRead (status s) n)"
  by (auto simp add: poll_search_def Let_def radio_call_def bitRead_bitWrite st_bits)

lemma go_up_bits:
  "bitRead (status (go_up s)) n
     = (if n = ST_GO_UP then False
        else if n = ST_SEARCH
             then bitRead (status s) ST_SEARCH
                  \<or> (bitRead (status s) ST_GO_UP \<and> bitRead (status s) ST_AUTO)
             else bitRead (status s) n)"
  by (auto simp add: go_up_def Let_def radio_call_def bitRead_bitWrite st_bits)

lemma go_down_bits:
  "bitRead (status (go_down s)) n
     = (if n = ST_GO_DOWN then False
        else if n = ST_SEARCH
             then bitRead (status s) ST_SEARCH
                  \<or> (bitRead (status s) ST_GO_DOWN \<and> bitRead (status s) ST_AUTO)
             else bitRead (status s) n)"
  by (auto simp add: go_down_def Let_def radio_call_def bitRead_bitWrite st_bits)

lemma loop_bits:
  "bitRead (status (loop e s)) n
     = (if n = ST_GO_UP \<or> n = ST_GO_DOWN then False
        else if n = ST_SEARCH
             then (bitRead (status s) ST_SEARCH \<and> process_search e \<noteq> 1)
                  \<or> ((bitRead (status s) ST_GO_UP \<or> bitRead (status s) ST_GO_DOWN)
                      \<and> bitRead (status s) ST_AUTO)
             else bitRead (status s) n)"
  by (auto simp add: loop_def go_down_bits go_up_bits poll_search_bits refresh_rest st_bits)

text \<open>
  Claim C4, as amended. \<open>isrEncoder\<close> sets one flag, goUp or goDown, and changes no
  other bit. \<open>isrSwitch\<close> inverts the auto flag, so it clears it when it was set, and
  changes no other bit. A pass of the loop leaves every bit other than goUp, goDown and
  search as it was, leaves goUp and goDown cleared, and writes the search flag in both
  directions: after the pass it is set when it was set and the tuner did not report the
  end of the search, or when an encoder event was pending in auto mode.
\<close>

theorem flag_writers:
  "(\<forall>n. bitRead (status (isrEncoder b s)) n
          = (bitRead (status s) n \<or> n = (if b then ST_GO_UP else ST_GO_DOWN)))
   \<and> (\<forall>n. bitRead (status (isrSwitch s)) n
          = (if n = ST_AUTO then \<not> bitRead (status s) ST_AUTO else bitRead (status s) n))
   \<and> (\<forall>n. n \<noteq> ST_GO_UP \<and> n \<noteq> ST_GO_DOWN \<and> n \<noteq> ST_SEARCH \<longrightarrow>
          bitRead (status (loop e s)) n = bitRead (status s) n)
   \<and> \<not> bitRead (status (loop e s)) ST_GO_UP
   \<and> \<not> bitRead (status (loop e s)) ST_GO_DOWN
   \<and> bitRead (status (loop e s)) ST_SEARCH
       = ((bitRead (status s) ST_SEARCH \<and> process_search e \<noteq> 1)
          \<or> ((bitRead (status s) ST_GO_UP \<or> bitRead (status s) ST_GO_DOWN)
              \<and> bitRead (status s) ST_AUTO))"
  by (simp add: isrEncoder_bits isrSwitch_bits loop_bits) (simp add: st_bits)

text \<open>
  A second edge on the switch takes the auto flag from 1 to 0, and a pass of the loop
  with an encoder event pending in auto mode takes the search flag from 0 to 1.
\<close>

theorem flag_writers_counterexample:
  "bitRead (status (isrSwitch arduino_setup)) ST_AUTO
   \<and> \<not> bitRead (status (isrSwitch (isrSwitch arduino_setup))) ST_AUTO
   \<and> \<not> bitRead (status (isrEncoder True (isrSwitch arduino_setup))) ST_SEARCH
   \<and> bitRead (status (loop \<lparr>read_status = None, process_search = 0\<rparr>
                        (isrEncoder True (isrSwitch arduino_setup)))) ST_SEARCH"
  by code_simp

theorem flag_writers_witness:
  "bitRead (status (isrEncoder False arduino_setup)) ST_GO_DOWN
   \<and> bitRead (status (isrSwitch arduino_setup)) ST_AUTO
   \<and> bitRead (status (loop \<lparr>read_status = None, process_search = 0\<rparr> (isrSwitch arduino_setup))) ST_AUTO
   \<and> \<not> bitRead (status (loop \<lparr>read_status = None, process_search = 0\<rparr>
                          (isrEncoder False arduino_setup))) ST_GO_DOWN"
proof -
  let ?e = "\<lparr>read_status = None, process_search = 0\<rparr>"
  have clear: "\<not> bitRead (status arduino_setup) ST_AUTO"
    by (simp add: arduino_setup_def bitRead_def)
  have 1: "bitRead (status (isrEncoder False arduino_setup)) ST_GO_DOWN"
    using flag_writers [of False arduino_setup ?e] by simp
  have 2: "bitRead (status (isrSwitch arduino_setup)) ST_AUTO"
    using flag_writers [of False arduino_setup ?e] clear by simp
  have 3: "bitRead (status (loop ?e (isrSwitch arduino_setup))) ST_AUTO"
    using flag_writers [of False "isrSwitch arduino_setup" ?e] 2 by (simp add: st_bits)
  have 4: "\<not> bitRead (status (loop ?e (isrEncoder False arduino_setup))) ST_GO_DOWN"
    using flag_writers [of False "isrEncoder False arduino_setup" ?e] by simp
  from 1 2 3 4 show ?thesis by simp
qed

section \<open>An encoder event during a search\<close>

text \<open>
  A pass of the loop enters a search only in auto mode, with an encoder event pending.
  With the search flag still set, a clockwise event in auto mode takes the else branch of
  line 279: one step up and a retune, the search flag untouched.
\<close>

lemma search_entry:
  assumes "\<not> bitRead (status s) ST_SEARCH" and "bitRead (status (loop e s)) ST_SEARCH"
  shows "bitRead (status s) ST_AUTO \<and> (bitRead (status s) ST_GO_UP \<or> bitRead (status s) ST_GO_DOWN)"
  using assms by (simp add: loop_bits st_bits)

lemma step_during_search:
  assumes "bitRead (status s) ST_AUTO" "bitRead (status s) ST_SEARCH"
    "bitRead (status s) ST_GO_UP" "frequency s < 108"
  shows "frequency (go_up s) = frequency s + 1 / 10"
    and "radio (go_up s) = radio s @ [SetFrequency (frequency s + 1 / 10)]"
    and "bitRead (status (go_up s)) ST_SEARCH"
proof -
  show "frequency (go_up s) = frequency s + 1 / 10"
    using assms by (simp add: go_up_frequency)
  show "radio (go_up s) = radio s @ [SetFrequency (frequency s + 1 / 10)]"
    using assms by (simp add: go_up_def Let_def radio_call_def)
  show "bitRead (status (go_up s)) ST_SEARCH"
    using assms by (simp add: go_up_bits st_bits)
qed

text \<open>
  Claim C3. The specification has an encoder event that is handled while a search is in
  progress dropped, with no change of the frequency and no command to the tuner. The
  sketch does otherwise: in auto mode, a first clockwise turn starts a search; a second
  one, handled while the search flag is still set, falls into the branch commented as
  manual tuning, adds 0.1 to the frequency and retunes the tuner, and the search flag
  stays set.
\<close>

theorem step_while_searching:
  "bitRead (status (run [SwitchEdge, EncoderEdge True, Pass idle] arduino_setup)) ST_AUTO
   \<and> bitRead (status (run [SwitchEdge, EncoderEdge True, Pass idle] arduino_setup)) ST_SEARCH
   \<and> frequency (run [SwitchEdge, EncoderEdge True, Pass idle] arduino_setup) = 88
   \<and> radio (run [SwitchEdge, EncoderEdge True, Pass idle] arduino_setup)
       = [Init, SetFrequency 88, ReadStatus, SearchUp]
   \<and> frequency (run [SwitchEdge, EncoderEdge True, Pass idle, EncoderEdge True, Pass idle]
                  arduino_setup) = 881 / 10
   \<and> radio (run [SwitchEdge, EncoderEdge True, Pass idle, EncoderEdge True, Pass idle]
              arduino_setup)
       = [Init, SetFrequency 88, ReadStatus, SearchUp,
          ReadStatus, ProcessSearch None, SetFrequency (881 / 10)]
   \<and> bitRead (status (run [SwitchEdge, EncoderEdge True, Pass idle, EncoderEdge True, Pass idle]
                        arduino_setup)) ST_SEARCH"
  by code_simp

section \<open>The needle on the dial\<close>

text \<open>
  The cells after the calls of \<^verbatim>\<open>updateScale()\<close>: the needle in the cell of the major
  index, the dial background in the cell to its left and in the cell to its right where
  the display has one, and every other cell as it was. The cursor moves one cell to the
  right with each write, as the comments of \<^verbatim>\<open>updateScale()\<close> take for granted.
\<close>

lemma updateScale_cells:
  "cells (fold lcd_exec (scale_cmds f) d) =
     (\<lambda>p. if p = (lcdMajor f, 0) then word_of_int (lcdMinor f)
          else if p = (lcdMajor f - 1, 0) \<and> 0 < lcdMajor f then SCALE_CLEAR
          else if p = (lcdMajor f + 1, 0) \<and> lcdMajor f < 15 then SCALE_CLEAR
          else cells d p)"
  by (auto simp add: scale_cmds_def put_def fun_eq_iff)

text \<open>
  Claim C6. The specification has every run of \<^verbatim>\<open>updateScale()\<close> write one of the
  needle glyphs 0 to 4, and at most one needle glyph visible after every update.
  \<^verbatim>\<open>updateScale()\<close> clears the two cells next to the new needle only: after a snapshot
  at 88.0 MHz the needle is in column 0, and after a following snapshot at 100.0 MHz
  there is a needle in column 9 and the one in column 0 is still there. And the position
  is bounded from above only: after a snapshot at 87.5 MHz the minor index is -2, the
  byte written in column 0 is 254, and no needle glyph is on the dial.
\<close>

theorem stale_needle:
  "row_of (shown (lcd (run [Pass (tuned_to 88000000)] arduino_setup))) 0
     = [0, 5, 5, 5, 5, 5, 5, 5, 5, 5, 5, 5, 5, 5, 5, 5]
   \<and> row_of (shown (lcd (run [Pass (tuned_to 88000000), Pass (tuned_to 100000000)] arduino_setup))) 0
     = [0, 5, 5, 5, 5, 5, 5, 5, 5, 3, 5, 5, 5, 5, 5, 5]
   \<and> length (filter is_needle
        (row_of (shown (lcd (run [Pass (tuned_to 88000000), Pass (tuned_to 100000000)] arduino_setup))) 0))
     = 2
   \<and> lcdMinor (175 / 2) = - 2
   \<and> row_of (shown (lcd (run [Pass (tuned_to 87500000)] arduino_setup))) 0
     = [254, 5, 5, 5, 5, 5, 5, 5, 5, 5, 5, 5, 5, 5, 5, 5]
   \<and> filter is_needle (row_of (shown (lcd (run [Pass (tuned_to 87500000)] arduino_setup))) 0) = []"
  by code_simp

section \<open>Six steps up from 88.0\<close>

lemma retunes_append: "retunes (xs @ ys) = retunes xs @ retunes ys"
  by (induction xs rule: retunes.induct) simp_all

lemma needle_writes_append: "needle_writes (xs @ ys) = needle_writes xs + needle_writes ys"
  by (induction xs rule: needle_writes.induct) simp_all

lemma no_needle:
  "\<not> is_needle (letter s)" "\<not> is_needle 183" "\<not> is_needle 32" "\<not> is_needle 37"
  "\<not> is_needle STEREO_CHAR_S" "\<not> is_needle STEREO_CHAR_T" "\<not> is_needle SCALE_CLEAR"
  by (simp_all add: letter_def is_needle_def STEREO_CHAR_S_def STEREO_CHAR_T_def SCALE_CLEAR_def)

lemma needle_writes_scale:
  assumes "88 \<le> f" "f \<le> 108"
  shows "needle_writes (scale_cmds f) = 1"
proof -
  have b: "0 \<le> lcdBase f" "lcdBase f \<le> 79"
    using assms by (rule lcdBase_in_band)+
  then have minor: "lcdMinor f = lcdBase f mod 5"
    by (simp add: lcdMinor_def c_mod_nonneg)
  have "0 \<le> lcdBase f mod 5" "lcdBase f mod 5 < 5" by simp_all
  then have "lcdBase f mod 5 \<in> {0, 1, 2, 3, 4}" by auto
  then have "is_needle (word_of_int (lcdMinor f))"
    unfolding minor by (auto simp add: is_needle_def)
  then show ?thesis
    by (simp add: scale_cmds_def no_needle)
qed

lemma needle_writes_refresh:
  "needle_writes (lcd (refresh rd s)) =
     needle_writes (lcd s) + (case rd of None \<Rightarrow> 0 | Some r \<Rightarrow> needle_writes (scale_cmds (reported r)))"
  by (cases rd)
    (simp_all add: refresh_lcd_None refresh_lcd_Some needle_writes_append no_needle)

lemma one_turn:
  assumes st: "status s = 0" and f: "frequency s = f" and band: "88 \<le> f" "f < 108"
    and echo: "case read_status e of None \<Rightarrow> True | Some r \<Rightarrow> reported r = f"
  shows "status (loop e (isrEncoder True s)) = 0"
    and "frequency (loop e (isrEncoder True s)) = f + 1 / 10"
    and "retunes (radio (loop e (isrEncoder True s))) = retunes (radio s) @ [f + 1 / 10]"
    and "needle_writes (lcd (loop e (isrEncoder True s)))
           = needle_writes (lcd s) + (if read_status e = None then 0 else 1)"
proof -
  let ?s1 = "refresh (read_status e) (isrEncoder True s\<lparr>searchDirection := None\<rparr>)"
  have st1: "status ?s1 = 4"
    using st by (simp add: refresh_rest isrEncoder_def bitWrite_def bitSet_def st_bits)
  have f1: "frequency ?s1 = f"
    using f echo by (simp add: refresh_frequency isrEncoder_def split: option.splits)
  have r1: "radio ?s1 = radio s @ [ReadStatus]"
    by (simp add: refresh_rest isrEncoder_def)
  have p: "poll_search (process_search e) ?s1 = ?s1"
    using st1 by (simp add: poll_search_def bitRead_def st_bits)
  have up: "go_up ?s1 = ?s1\<lparr>frequency := f + 1 / 10,
      radio := radio s @ [ReadStatus, SetFrequency (f + 1 / 10)], status := 0\<rparr>"
    using st1 f1 r1 band
    by (simp add: go_up_def Let_def radio_call_def bitRead_def bitWrite_def bitClear_def st_bits)
  have down: "go_down (go_up ?s1) = go_up ?s1"
    unfolding up by (simp add: go_down_def bitRead_def st_bits)
  have l: "loop e (isrEncoder True s) = go_up ?s1"
    unfolding loop_def p down ..
  show "status (loop e (isrEncoder True s)) = 0" unfolding l up by simp
  show "frequency (loop e (isrEncoder True s)) = f + 1 / 10" unfolding l up by simp
  show "retunes (radio (loop e (isrEncoder True s))) = retunes (radio s) @ [f + 1 / 10]"
    unfolding l up by (simp add: retunes_append)
  have "needle_writes (lcd (loop e (isrEncoder True s))) = needle_writes (lcd ?s1)"
    unfolding l up by simp
  also have "\<dots> = needle_writes (lcd s) + (if read_status e = None then 0 else 1)"
    using echo band
    by (cases "read_status e")
      (simp_all add: needle_writes_refresh isrEncoder_def needle_writes_scale)
  finally show "needle_writes (lcd (loop e (isrEncoder True s)))
           = needle_writes (lcd s) + (if read_status e = None then 0 else 1)" .
qed

lemma run_append: "run (xs @ ys) s = run ys (run xs s)"
  by (simp add: run_def)

lemma turns_Cons: "run (turns (e # es)) s = run (turns es) (loop e (isrEncoder True s))"
  by (simp add: turns_def run_def)

lemma climbing:
  assumes "status s = 0" and "frequency s = of_int k / 10" and "880 \<le> k"
    and "k + int (length es) \<le> 1080" and "echoes k es"
  shows "status (run (turns es) s) = 0
       \<and> frequency (run (turns es) s) = of_int (k + int (length es)) / 10
       \<and> retunes (radio (run (turns es) s)) = retunes (radio s) @ climb k (length es)
       \<and> needle_writes (lcd (run (turns es) s)) = needle_writes (lcd s) + snapshots es"
  using assms
proof (induction es arbitrary: s k)
  case Nil
  then show ?case by (simp add: turns_def run_def snapshots_def)
next
  case (Cons e es)
  let ?f = "of_int k / 10 :: rat"
  let ?s = "loop e (isrEncoder True s)"
  from Cons.prems have lo: "88 \<le> ?f" by simp
  from Cons.prems have "k < 1080" by simp
  then have hi: "?f < 108" by simp
  from Cons.prems have echo: "case read_status e of None \<Rightarrow> True | Some r \<Rightarrow> reported r = ?f"
    by simp
  note turn = one_turn [OF Cons.prems(1) Cons.prems(2) lo hi echo]
  have f': "frequency ?s = of_int (k + 1) / 10"
    unfolding turn(2) by simp
  from Cons.prems have "880 \<le> k + 1" "k + 1 + int (length es) \<le> 1080" "echoes (k + 1) es"
    by simp_all
  from Cons.IH [OF turn(1) f' this]
  show ?case
    unfolding turns_Cons
    by (simp add: turn(3) turn(4) snapshots_def add.assoc)
qed

text \<open>
  Claim C7, as amended. From the state \<^verbatim>\<open>setup()\<close> leaves (88.0 MHz, manual mode, no
  search), six clockwise turns, each handled in a pass of its own in which the tuner
  either has no snapshot or echoes the stored frequency, bring the frequency to 88.6 in
  steps of 0.1 and issue exactly the six retune commands 88.1 to 88.6. The dial needle is
  drawn once in each of those passes that has a snapshot, and in no other: six times when
  every pass has one.
\<close>

theorem six_turns:
  assumes "length es = 6" and "echoes 880 es"
  shows "frequency (run (turns es) arduino_setup) = 443 / 5
       \<and> retunes (radio (run (turns es) arduino_setup))
           = retunes (radio arduino_setup) @ [881 / 10, 441 / 5, 883 / 10, 442 / 5, 177 / 2, 443 / 5]
       \<and> needle_writes (lcd (run (turns es) arduino_setup)) = snapshots es"
proof -
  have s0: "status arduino_setup = 0" "frequency arduino_setup = of_int 880 / 10"
    "needle_writes (lcd arduino_setup) = 0"
    by (simp_all add: arduino_setup_def is_needle_def SCALE_CLEAR_def eval_nat_numeral)
  have "(880 :: int) \<le> 880" "880 + int (length es) \<le> 1080"
    using assms(1) by simp_all
  from climbing [OF s0(1) s0(2) this assms(2)] assms(1) s0(3)
  show ?thesis by (simp add: eval_nat_numeral)
qed

text \<open>
  With a tuner that has no snapshot in any of the six passes the frequency reaches 88.6
  and the needle is never drawn.
\<close>

theorem six_turns_counterexample:
  "frequency (run (turns (replicate 6 idle)) arduino_setup) = 443 / 5
   \<and> needle_writes (lcd (run (turns (replicate 6 idle)) arduino_setup)) = 0"
  by code_simp

theorem six_turns_witness:
  "needle_writes (lcd (run (turns (map tuned_to
       [88000000, 88100000, 88200000, 88300000, 88400000, 88500000])) arduino_setup)) = 6
   \<and> needle_writes (lcd (run (turns [tuned_to 88000000, idle, idle, tuned_to 88300000, idle, idle])
       arduino_setup)) = 2
   \<and> frequency (run (turns [tuned_to 88000000, idle, idle, tuned_to 88300000, idle, idle])
       arduino_setup) = 443 / 5"
proof -
  have a: "echoes 880 (map tuned_to [88000000, 88100000, 88200000, 88300000, 88400000, 88500000])"
    by code_simp
  have b: "echoes 880 [tuned_to 88000000, idle, idle, tuned_to 88300000, idle, idle]"
    by code_simp
  have c: "snapshots (map tuned_to [88000000, 88100000, 88200000, 88300000, 88400000, 88500000]) = 6"
    "snapshots [tuned_to 88000000, idle, idle, tuned_to 88300000, idle, idle] = 2"
    by (simp_all add: snapshots_def tuned_to_def idle_def)
  from six_turns [OF _ a] six_turns [OF _ b] c show ?thesis by simp
qed

end
